theory Spec2Isabelle
  imports Complex_Main "HOL-Library.Word"
begin

unbundle bit_operations_syntax

section \<open>Python values\<close>

text \<open>
  The plugin is Python: its configuration is a dictionary from option names to
  dynamically typed values, and every failure is an exception. Values are a datatype,
  exceptions are the left summand of a result.
\<close>

datatype py_error =
    KeyError string
  | TypeError
  | ValueError
  | OverflowError
  | AttributeError
  | UnboundLocalError
  | OSError
  | OtherError string

text \<open>What \<^verbatim>\<open>datetime.now()\<close> returns: a naive local date and time.\<close>

record datetime =
  year :: nat
  month :: nat
  day :: nat
  hour :: nat
  minute :: nat
  second :: nat
  microsecond :: nat

text \<open>
  A float is its IEEE 754 binary64 bit pattern. \<open>PDevice\<close> is a \<^verbatim>\<open>torch.device\<close>,
  \<open>PObj\<close> an opaque object of a library (an open file, a model), named by a number.
\<close>

datatype pyval =
    PNone
  | PBool bool
  | PInt int
  | PFloat "64 word"
  | PStr string
  | PList "pyval list"
  | PDict "(pyval \<times> pyval) list"
  | PDevice string
  | PDatetime datetime
  | PObj nat

text \<open>Truth value testing, as \<^verbatim>\<open>if x:\<close> does it.\<close>

fun truthy :: "pyval \<Rightarrow> bool" where
  "truthy PNone = False"
| "truthy (PBool b) = b"
| "truthy (PInt i) = (i \<noteq> 0)"
| "truthy (PFloat w) = (w \<noteq> 0 \<and> w \<noteq> 0x8000000000000000)"
| "truthy (PStr s) = (s \<noteq> [])"
| "truthy (PList xs) = (xs \<noteq> [])"
| "truthy (PDict kvs) = (kvs \<noteq> [])"
| "truthy (PDevice d) = True"
| "truthy (PDatetime t) = True"
| "truthy (PObj n) = True"

subsection \<open>Float literals\<close>

text \<open>
  The fields of a binary64 pattern, and the rational a normal pattern stands for.
  \<open>denotes w q\<close> says that \<open>w\<close> is a normal number, not the least of its binade, that
  lies strictly within half a unit in the last place of \<open>q\<close>: it is the double the
  interpreter reads from a decimal literal whose exact value is \<open>q\<close>.
\<close>

definition float_exponent :: "64 word \<Rightarrow> nat" where
  "float_exponent w = unat (drop_bit 52 w AND 0x7FF)"

definition float_mantissa :: "64 word \<Rightarrow> nat" where
  "float_mantissa w = unat (w AND 0xFFFFFFFFFFFFF)"

definition float_ulp :: "64 word \<Rightarrow> rat" where
  "float_ulp w = 2 ^ float_exponent w / 2 ^ 1075"

definition float_value :: "64 word \<Rightarrow> rat" where
  "float_value w =
     (if bit w 63 then - 1 else 1) * of_nat (2 ^ 52 + float_mantissa w) * float_ulp w"

definition denotes :: "64 word \<Rightarrow> rat \<Rightarrow> bool" where
  "denotes w q \<longleftrightarrow>
     0 < float_exponent w \<and> float_exponent w < 2047 \<and> float_mantissa w \<noteq> 0 \<and>
     2 * \<bar>float_value w - q\<bar> < float_ulp w"

subsection \<open>The built-in conversions\<close>

text \<open>
  \<^verbatim>\<open>str(x)\<close>, \<^verbatim>\<open>int(x)\<close> and \<^verbatim>\<open>float(x)\<close> belong to the interpreter. The cases
  written out here are the ones fixed for every interpreter: a value already of the
  target type, \<^verbatim>\<open>int\<close> of a bool, \<^verbatim>\<open>int\<close> of a short string of ASCII digits, and
  the TypeError of \<^verbatim>\<open>int\<close> and \<^verbatim>\<open>float\<close> on None, a list or a dict. Every other
  case (signs, blanks and underscores in a string, strings over the interpreter's
  digit limit, float parsing and rounding, the text of a number or an object) is a
  parameter: a function that returns the converted value or the exception raised.
\<close>

record builtins =
  str_other :: "pyval \<Rightarrow> py_error + string"
  int_other :: "pyval \<Rightarrow> py_error + int"
  float_other :: "pyval \<Rightarrow> py_error + 64 word"

definition is_digit :: "char \<Rightarrow> bool" where
  "is_digit c = (c \<in> set ''0123456789'')"

definition digit_value :: "char \<Rightarrow> nat" where
  "digit_value c = of_char c - 48"

definition decimal_value :: "string \<Rightarrow> nat" where
  "decimal_value s = foldl (\<lambda>a c. 10 * a + digit_value c) 0 s"

definition plain_digits :: "string \<Rightarrow> bool" where
  "plain_digits s = (s \<noteq> [] \<and> length s \<le> 640 \<and> list_all is_digit s)"

definition py_str :: "builtins \<Rightarrow> pyval \<Rightarrow> py_error + pyval" where
  "py_str bi v =
     (case v of
        PStr s \<Rightarrow> Inr (PStr s)
      | _ \<Rightarrow> (case str_other bi v of Inl e \<Rightarrow> Inl e | Inr s \<Rightarrow> Inr (PStr s)))"

definition py_int :: "builtins \<Rightarrow> pyval \<Rightarrow> py_error + pyval" where
  "py_int bi v =
     (case v of
        PInt i \<Rightarrow> Inr (PInt i)
      | PBool b \<Rightarrow> Inr (PInt (if b then 1 else 0))
      | PNone \<Rightarrow> Inl TypeError
      | PList xs \<Rightarrow> Inl TypeError
      | PDict kvs \<Rightarrow> Inl TypeError
      | _ \<Rightarrow>
          (if (case v of PStr s \<Rightarrow> plain_digits s | _ \<Rightarrow> False)
           then Inr (PInt (int (decimal_value (case v of PStr s \<Rightarrow> s | _ \<Rightarrow> []))))
           else (case int_other bi v of Inl e \<Rightarrow> Inl e | Inr i \<Rightarrow> Inr (PInt i))))"

definition py_float :: "builtins \<Rightarrow> pyval \<Rightarrow> py_error + pyval" where
  "py_float bi v =
     (case v of
        PFloat w \<Rightarrow> Inr (PFloat w)
      | PNone \<Rightarrow> Inl TypeError
      | PList xs \<Rightarrow> Inl TypeError
      | PDict kvs \<Rightarrow> Inl TypeError
      | _ \<Rightarrow> (case float_other bi v of Inl e \<Rightarrow> Inl e | Inr w \<Rightarrow> Inr (PFloat w)))"

text \<open>\<^verbatim>\<open>os.path.join(a, b)\<close> of \<^verbatim>\<open>posixpath\<close>, for two strings.\<close>

definition path_join :: "string \<Rightarrow> string \<Rightarrow> string" where
  "path_join a b =
     (if take 1 b = ''/'' then b
      else if a = [] \<or> last a = CHR ''/'' then a @ b
      else a @ ''/'' @ b)"

section \<open>The parameters: TrainYoloV8ClassificationParam\<close>

type_synonym config = "string \<rightharpoonup> pyval"

text \<open>
  \<^verbatim>\<open>__init__\<close> fills \<^verbatim>\<open>self.cfg\<close>, which the host's \<^verbatim>\<open>TaskParam.__init__\<close> has
  created (\<open>base\<close>). \<open>here\<close> is \<^verbatim>\<open>os.path.dirname(os.path.realpath(__file__))\<close>.
  The four float literals are \<^verbatim>\<open>0.9\<close>, \<^verbatim>\<open>0.0005\<close>, \<^verbatim>\<open>0.937\<close> and \<^verbatim>\<open>0.01\<close>.
\<close>

definition TrainYoloV8ClassificationParam_init :: "config \<Rightarrow> string \<Rightarrow> config" where
  "TrainYoloV8ClassificationParam_init base here =
     base(''dataset_folder'' \<mapsto> PStr (path_join here ''dataset''),
          ''model_name'' \<mapsto> PStr ''yolov8m-cls'',
          ''epochs'' \<mapsto> PInt 100,
          ''batch_size'' \<mapsto> PInt 8,
          ''input_size'' \<mapsto> PInt 640,
          ''dataset_split_ratio'' \<mapsto> PFloat 0x3FECCCCCCCCCCCCD,
          ''workers'' \<mapsto> PInt 0,
          ''optimizer'' \<mapsto> PStr ''auto'',
          ''weight_decay'' \<mapsto> PFloat 0x3F40624DD2F1A9FC,
          ''momentum'' \<mapsto> PFloat 0x3FEDFBE76C8B4396,
          ''lr0'' \<mapsto> PFloat 0x3F847AE147AE147B,
          ''lrf'' \<mapsto> PFloat 0x3F847AE147AE147B,
          ''config_file'' \<mapsto> PStr '''',
          ''output_folder'' \<mapsto> PStr (here @ ''/runs/''))"

text \<open>
  \<^verbatim>\<open>set_values\<close> is fourteen assignments \<^verbatim>\<open>self.cfg[k] = conv(param_map[k])\<close>, run in
  order. Each one looks the key up (KeyError), converts (the conversion's exception)
  and stores; an exception leaves \<^verbatim>\<open>self.cfg\<close> as the earlier assignments made it,
  so the result carries the configuration in both cases.
\<close>

type_synonym assignment = "string \<times> (pyval \<Rightarrow> py_error + pyval)"

fun assign_all :: "assignment list \<Rightarrow> config \<Rightarrow> config \<Rightarrow> (py_error + unit) \<times> config" where
  "assign_all [] param_map cfg = (Inr (), cfg)"
| "assign_all ((k, conv) # rest) param_map cfg =
     (case param_map k of
        None \<Rightarrow> (Inl (KeyError k), cfg)
      | Some v \<Rightarrow>
          (case conv v of
             Inl e \<Rightarrow> (Inl e, cfg)
           | Inr v' \<Rightarrow> assign_all rest param_map (cfg(k \<mapsto> v'))))"

definition set_values_assignments :: "builtins \<Rightarrow> assignment list" where
  "set_values_assignments bi =
     [(''dataset_folder'', py_str bi),
      (''model_name'', py_str bi),
      (''epochs'', py_int bi),
      (''batch_size'', py_int bi),
      (''input_size'', py_int bi),
      (''workers'', py_int bi),
      (''optimizer'', py_str bi),
      (''weight_decay'', py_float bi),
      (''momentum'', py_float bi),
      (''lr0'', py_float bi),
      (''lrf'', py_float bi),
      (''config_file'', Inr),
      (''dataset_split_ratio'', py_float bi),
      (''output_folder'', py_str bi)]"

definition set_values :: "builtins \<Rightarrow> config \<Rightarrow> config \<Rightarrow> (py_error + unit) \<times> config" where
  "set_values bi param_map cfg = assign_all (set_values_assignments bi) param_map cfg"

section \<open>The task: TrainYoloV8Classification\<close>

subsection \<open>The outside world\<close>

text \<open>
  Everything \<^verbatim>\<open>run\<close> does goes through the host (\<^verbatim>\<open>begin_task_run\<close>, the input
  slot, the progress signal), \<^verbatim>\<open>torch\<close>, the file system, the YAML parser, the clock
  and the \<^verbatim>\<open>ultralytics\<close> model. Each such call is a constructor of \<open>call\<close>, with
  its arguments. The environment answers a call, in the current state of the world,
  with the value returned or the exception raised, and a new state of the world.
  The task keeps a transcript of its calls and their answers.
\<close>

datatype call =
    Begin_task_run
  | Get_input_path nat
  | Cuda_is_available
  | Open pyval string
  | Yaml_safe_load pyval
  | Close pyval
  | YOLO pyval
  | Add_callback pyval string string
  | Datetime_now
  | Makedirs pyval bool
  | Train pyval "(string \<times> pyval) list"
  | Emit_step_progress
  | End_task_run

type_synonym 'w env = "call \<Rightarrow> 'w \<Rightarrow> (py_error + pyval) \<times> 'w"

record 'w task =
  param_cfg :: config
  device :: pyval
  model_name_file :: pyval
  model :: pyval
  stop_training :: bool
  log :: "(call \<times> (py_error + pyval)) list"
  world :: 'w

type_synonym ('a, 'w) prog = "'w task \<Rightarrow> (py_error + 'a) \<times> 'w task"

definition return :: "'a \<Rightarrow> ('a, 'w) prog" where
  "return x s = (Inr x, s)"

definition lift :: "py_error + 'a \<Rightarrow> ('a, 'w) prog" where
  "lift r s = (r, s)"

definition pbind :: "('a, 'w) prog \<Rightarrow> ('a \<Rightarrow> ('b, 'w) prog) \<Rightarrow> ('b, 'w) prog" where
  "pbind m k s = (case m s of (Inl e, s') \<Rightarrow> (Inl e, s') | (Inr x, s') \<Rightarrow> k x s')"

definition ext :: "'w env \<Rightarrow> call \<Rightarrow> (pyval, 'w) prog" where
  "ext env c s =
     (case env c (world s) of (r, w') \<Rightarrow> (r, s\<lparr>log := log s @ [(c, r)], world := w'\<rparr>))"

definition cfg_get :: "string \<Rightarrow> (pyval, 'w) prog" where
  "cfg_get k s = (case param_cfg s k of None \<Rightarrow> (Inl (KeyError k), s) | Some v \<Rightarrow> (Inr v, s))"

subsection \<open>Expressions of run\<close>

text \<open>\<^verbatim>\<open>config_file["model"]\<close>: only a dict can be subscripted by a string.\<close>

definition subscript :: "pyval \<Rightarrow> string \<Rightarrow> py_error + pyval" where
  "subscript v k =
     (case v of
        PDict kvs \<Rightarrow> (case map_of kvs (PStr k) of None \<Rightarrow> Inl (KeyError k) | Some x \<Rightarrow> Inr x)
      | _ \<Rightarrow> Inl TypeError)"

text \<open>\<^verbatim>\<open>x + ".pt"\<close>: concatenation when \<open>x\<close> is a string, a TypeError otherwise.\<close>

definition add_str :: "pyval \<Rightarrow> string \<Rightarrow> py_error + pyval" where
  "add_str v suffix = (case v of PStr s \<Rightarrow> Inr (PStr (s @ suffix)) | _ \<Rightarrow> Inl TypeError)"

text \<open>\<^verbatim>\<open>config_file.items()\<close>, and the unpacking \<^verbatim>\<open>**custom_args\<close>, which wants string keys.\<close>

definition dict_items :: "pyval \<Rightarrow> py_error + (pyval \<times> pyval) list" where
  "dict_items v = (case v of PDict kvs \<Rightarrow> Inr kvs | _ \<Rightarrow> Inl AttributeError)"

fun keyword_args :: "(pyval \<times> pyval) list \<Rightarrow> py_error + (string \<times> pyval) list" where
  "keyword_args [] = Inr []"
| "keyword_args ((PStr k, v) # rest) =
     (case keyword_args rest of Inl e \<Rightarrow> Inl e | Inr kw \<Rightarrow> Inr ((k, v) # kw))"
| "keyword_args (_ # rest) = Inl TypeError"

text \<open>
  \<^verbatim>\<open>strftime('%Y%m%d_%H%M%S')\<close>: the year on four digits, the other fields on two.
\<close>

definition digit_char :: "nat \<Rightarrow> char" where
  "digit_char n = ''0123456789'' ! (n mod 10)"

definition two_digits :: "nat \<Rightarrow> string" where
  "two_digits n = [digit_char (n div 10), digit_char n]"

definition four_digits :: "nat \<Rightarrow> string" where
  "four_digits n =
     [digit_char (n div 10 div 10 div 10), digit_char (n div 10 div 10), digit_char (n div 10),
      digit_char n]"

definition strftime :: "datetime \<Rightarrow> string" where
  "strftime t =
     four_digits (year t) @ two_digits (month t) @ two_digits (day t) @ ''_'' @
     two_digits (hour t) @ two_digits (minute t) @ two_digits (second t)"

definition py_strftime :: "pyval \<Rightarrow> py_error + string" where
  "py_strftime v = (case v of PDatetime t \<Rightarrow> Inr (strftime t) | _ \<Rightarrow> Inl AttributeError)"

definition os_path_join :: "pyval \<Rightarrow> string \<Rightarrow> py_error + pyval" where
  "os_path_join v b = (case v of PStr a \<Rightarrow> Inr (PStr (path_join a b)) | _ \<Rightarrow> Inl TypeError)"

subsection \<open>The statements of run\<close>

text \<open>Lines 118-119: the device.\<close>

definition torch_device :: "pyval \<Rightarrow> pyval" where
  "torch_device available = (if truthy available then PDevice ''cuda'' else PDevice ''cpu'')"

definition select_device :: "'w env \<Rightarrow> (unit, 'w) prog" where
  "select_device env =
     pbind (ext env Cuda_is_available) (\<lambda>available s.
       (Inr (), s\<lparr>device := torch_device available\<rparr>))"

text \<open>
  Lines 122-123: the \<^verbatim>\<open>with\<close> block. The file is closed whether the parser returns
  or raises; an exception of the close replaces the block's outcome.
\<close>

definition load_config_file :: "'w env \<Rightarrow> pyval \<Rightarrow> (pyval, 'w) prog" where
  "load_config_file env path =
     pbind (ext env (Open path ''r'')) (\<lambda>file s.
       (case ext env (Yaml_safe_load file) s of
          (r, s1) \<Rightarrow>
            (case ext env (Close file) s1 of
               (Inl e, s2) \<Rightarrow> (Inl e, s2)
             | (Inr _, s2) \<Rightarrow> (r, s2))))"

text \<open>
  Lines 120-126: the model artifact. The result is the local variable
  \<^verbatim>\<open>config_file\<close>, bound only when a config file is set.
\<close>

definition determine_model_name :: "'w env \<Rightarrow> (pyval option, 'w) prog" where
  "determine_model_name env =
     pbind (cfg_get ''config_file'') (\<lambda>cf.
       if truthy cf then
         pbind (cfg_get ''config_file'') (\<lambda>path.
         pbind (load_config_file env path) (\<lambda>config_file.
         pbind (lift (subscript config_file ''model'')) (\<lambda>name s.
           (Inr (Some config_file), s\<lparr>model_name_file := name\<rparr>))))
       else
         pbind (cfg_get ''model_name'') (\<lambda>model_name.
         pbind (lift (add_str model_name ''.pt'')) (\<lambda>name s.
           (Inr None, s\<lparr>model_name_file := name\<rparr>))))"

text \<open>Lines 128-132: the model object and its callback.\<close>

definition create_model :: "'w env \<Rightarrow> (unit, 'w) prog" where
  "create_model env =
     pbind (\<lambda>s. (Inr (model_name_file s), s)) (\<lambda>name.
     pbind (ext env (YOLO name)) (\<lambda>m.
     pbind (\<lambda>s. (Inr (), s\<lparr>model := m\<rparr>)) (\<lambda>_.
     pbind (\<lambda>s. (Inr (model s), s)) (\<lambda>m'.
     pbind (ext env (Add_callback m' ''on_fit_epoch_end'' ''custom_callbacks.on_fit_epoch_end''))
       (\<lambda>_. return ())))))"

text \<open>Lines 135-139: the output folder.\<close>

definition create_output_folder :: "'w env \<Rightarrow> (pyval, 'w) prog" where
  "create_output_folder env =
     pbind (ext env Datetime_now) (\<lambda>now.
     pbind (lift (py_strftime now)) (\<lambda>experiment_name.
     pbind (cfg_get ''output_folder'') (\<lambda>folder.
     pbind (ext env (Makedirs folder True)) (\<lambda>_.
     pbind (cfg_get ''output_folder'') (\<lambda>folder'.
     pbind (lift (os_path_join folder' experiment_name)) (\<lambda>output_folder.
     pbind (ext env (Makedirs output_folder True)) (\<lambda>_.
     return output_folder)))))))"

text \<open>Lines 142-162: the training call, in one of its two forms.\<close>

definition train_model :: "'w env \<Rightarrow> pyval \<Rightarrow> pyval option \<Rightarrow> pyval \<Rightarrow> (unit, 'w) prog" where
  "train_model env dataset_folder config_file output_folder =
     pbind (cfg_get ''config_file'') (\<lambda>cf.
       if truthy cf then
         pbind (lift (case config_file of
                        None \<Rightarrow> Inl UnboundLocalError
                      | Some doc \<Rightarrow> dict_items doc)) (\<lambda>items.
         pbind (\<lambda>s. (Inr (model s), s)) (\<lambda>m.
         pbind (lift (keyword_args items)) (\<lambda>custom_args.
         pbind (ext env (Train m custom_args)) (\<lambda>_. return ()))))
       else
         pbind (\<lambda>s. (Inr (model s), s)) (\<lambda>m.
         pbind (cfg_get ''epochs'') (\<lambda>epochs.
         pbind (cfg_get ''input_size'') (\<lambda>input_size.
         pbind (cfg_get ''batch_size'') (\<lambda>batch_size.
         pbind (cfg_get ''workers'') (\<lambda>workers.
         pbind (cfg_get ''optimizer'') (\<lambda>optimizer.
         pbind (cfg_get ''momentum'') (\<lambda>momentum.
         pbind (cfg_get ''weight_decay'') (\<lambda>weight_decay.
         pbind (cfg_get ''lr0'') (\<lambda>lr0.
         pbind (cfg_get ''lrf'') (\<lambda>lrf.
         pbind (\<lambda>s. (Inr (device s), s)) (\<lambda>dev.
         pbind (ext env (Train m
                  [(''data'', dataset_folder),
                   (''epochs'', epochs),
                   (''imgsz'', input_size),
                   (''batch'', batch_size),
                   (''workers'', workers),
                   (''optimizer'', optimizer),
                   (''momentum'', momentum),
                   (''weight_decay'', weight_decay),
                   (''lr0'', lr0),
                   (''lrf'', lrf),
                   (''pretrained'', PBool True),
                   (''device'', dev),
                   (''project'', output_folder)]))
           (\<lambda>_. return ())))))))))))))"

definition get_progress_steps :: "'w task \<Rightarrow> int" where
  "get_progress_steps self = 1"

definition run :: "'w env \<Rightarrow> (unit, 'w) prog" where
  "run env =
     pbind (ext env Begin_task_run) (\<lambda>_.
     pbind (ext env (Get_input_path 0)) (\<lambda>dataset_folder.
     pbind (select_device env) (\<lambda>_.
     pbind (determine_model_name env) (\<lambda>config_file.
     pbind (create_model env) (\<lambda>_.
     pbind (create_output_folder env) (\<lambda>output_folder.
     pbind (train_model env dataset_folder config_file output_folder) (\<lambda>_.
     pbind (ext env Emit_step_progress) (\<lambda>_.
     pbind (ext env End_task_run) (\<lambda>_.
     return ())))))))))"

section \<open>Vocabulary of the properties\<close>

text \<open>
  What one assignment of \<^verbatim>\<open>set_values\<close> does with a given \<^verbatim>\<open>param_map\<close>: the
  exception it raises, if any, and the value it stores otherwise.
\<close>

definition field_error :: "assignment \<Rightarrow> config \<Rightarrow> py_error option" where
  "field_error a param_map =
     (case param_map (fst a) of
        None \<Rightarrow> Some (KeyError (fst a))
      | Some v \<Rightarrow> (case snd a v of Inl e \<Rightarrow> Some e | Inr v' \<Rightarrow> None))"

definition field_value :: "assignment \<Rightarrow> config \<Rightarrow> pyval option" where
  "field_value a param_map =
     (case param_map (fst a) of
        None \<Rightarrow> None
      | Some v \<Rightarrow> (case snd a v of Inl e \<Rightarrow> None | Inr v' \<Rightarrow> Some v'))"

text \<open>The declared type of a stored value.\<close>

fun is_str :: "pyval \<Rightarrow> bool" where
  "is_str (PStr s) = True"
| "is_str _ = False"

fun is_int :: "pyval \<Rightarrow> bool" where
  "is_int (PInt i) = True"
| "is_int _ = False"

fun is_float :: "pyval \<Rightarrow> bool" where
  "is_float (PFloat w) = True"
| "is_float _ = False"


fun is_train :: "call \<Rightarrow> bool" where
  "is_train (Train m kw) = True"
| "is_train _ = False"

fun is_file_call :: "call \<Rightarrow> bool" where
  "is_file_call (Open p mode) = True"
| "is_file_call (Yaml_safe_load f) = True"
| "is_file_call (Close f) = True"
| "is_file_call _ = False"





section \<open>A concrete environment\<close>

text \<open>
  A small world to run the task in: a clock that hands out the next reading of a
  list, a parser that returns a fixed document, and a file system that records the
  directories made. No GPU; every other call returns None.
\<close>

record demo_world =
  clock :: "datetime list"
  document :: pyval
  dirs :: "pyval list"

definition demo_env :: "demo_world env" where
  "demo_env c w =
     (case c of
        Get_input_path n \<Rightarrow> (Inr (PStr ''/data/flowers''), w)
      | Cuda_is_available \<Rightarrow> (Inr (PBool False), w)
      | Open p mode \<Rightarrow> (Inr (PObj 1), w)
      | Yaml_safe_load f \<Rightarrow> (Inr (document w), w)
      | YOLO name \<Rightarrow> (Inr (PObj 2), w)
      | Datetime_now \<Rightarrow>
          (case clock w of
             [] \<Rightarrow> (Inl OSError, w)
           | t # ts \<Rightarrow> (Inr (PDatetime t), w\<lparr>clock := ts\<rparr>))
      | Makedirs p exist_ok \<Rightarrow> (Inr PNone, w\<lparr>dirs := p # dirs w\<rparr>)
      | _ \<Rightarrow> (Inr PNone, w))"


definition morning :: datetime where
  "morning = \<lparr>year = 2024, month = 1, day = 15, hour = 9, minute = 30, second = 5,
              microsecond = 100\<rparr>"

definition same_second :: datetime where
  "same_second = \<lparr>year = 2024, month = 1, day = 15, hour = 9, minute = 30, second = 5,
                  microsecond = 900000\<rparr>"

definition next_second :: datetime where
  "next_second = \<lparr>year = 2024, month = 1, day = 15, hour = 9, minute = 30, second = 6,
                  microsecond = 100\<rparr>"

definition demo_cfg :: config where
  "demo_cfg =
     (TrainYoloV8ClassificationParam_init Map.empty ''/plugin'')
       (''output_folder'' \<mapsto> PStr ''/out'')"

definition demo_document :: pyval where
  "demo_document =
     PDict [(PStr ''model'', PStr ''yolov8n-cls.pt''),
            (PStr ''data'', PStr ''/data/birds''),
            (PStr ''epochs'', PInt 3)]"

definition demo_task :: "config \<Rightarrow> datetime list \<Rightarrow> pyval \<Rightarrow> demo_world task" where
  "demo_task c readings doc =
     \<lparr>param_cfg = c, device = PDevice ''cpu'', model_name_file = PNone, model = PNone,
      stop_training = False, log = [],
      world = \<lparr>clock = readings, document = doc, dirs = []\<rparr>\<rparr>"

definition broken_document :: pyval where
  "broken_document = PDict [(PStr ''data'', PStr ''/data/birds'')]"

text \<open>
  Runs in that world: with the default configuration and a given clock, with a config
  file that parses to a given document, and a second run that starts where a first
  one ended.
\<close>

definition mapped_run :: "datetime list \<Rightarrow> (py_error + unit) \<times> demo_world task" where
  "mapped_run readings = run demo_env (demo_task demo_cfg readings PNone)"

definition config_run :: "pyval \<Rightarrow> (py_error + unit) \<times> demo_world task" where
  "config_run doc =
     run demo_env
       (demo_task (demo_cfg(''config_file'' \<mapsto> PStr ''/cfg/train.yaml'')) [morning] doc)"

definition rerun ::
  "(py_error + unit) \<times> demo_world task \<Rightarrow> (py_error + unit) \<times> demo_world task" where
  "rerun first = run demo_env ((snd first)\<lparr>log := []\<rparr>)"

text \<open>An interpreter whose parameter conversions all raise.\<close>

definition plain_builtins :: builtins where
  "plain_builtins =
     \<lparr>str_other = \<lambda>v. Inl TypeError, int_other = \<lambda>v. Inl ValueError,
      float_other = \<lambda>v. Inl ValueError\<rparr>"

text \<open>A loosely typed \<^verbatim>\<open>param_map\<close>: strings for numbers, and a number for the config file.\<close>

definition loose_param_map :: config where
  "loose_param_map =
     [''dataset_folder'' \<mapsto> PStr ''/data/flowers'',
      ''model_name'' \<mapsto> PStr ''yolov8n-cls'',
      ''epochs'' \<mapsto> PStr ''100'',
      ''batch_size'' \<mapsto> PStr ''16'',
      ''input_size'' \<mapsto> PInt 224,
      ''workers'' \<mapsto> PBool False,
      ''optimizer'' \<mapsto> PStr ''SGD'',
      ''weight_decay'' \<mapsto> PFloat 0x3F40624DD2F1A9FC,
      ''momentum'' \<mapsto> PFloat 0x3FEDFBE76C8B4396,
      ''lr0'' \<mapsto> PFloat 0x3F847AE147AE147B,
      ''lrf'' \<mapsto> PFloat 0x3F847AE147AE147B,
      ''config_file'' \<mapsto> PInt 7,
      ''dataset_split_ratio'' \<mapsto> PFloat 0x3FECCCCCCCCCCCCD,
      ''output_folder'' \<mapsto> PStr ''/out'']"

section \<open>Properties of the parameters\<close>

subsection \<open>Assignments in sequence\<close>

lemma assign_all_first_failure:
  "i < length steps \<Longrightarrow> distinct (map fst steps) \<Longrightarrow>
   (\<forall>j<i. field_error (steps ! j) pm = None) \<Longrightarrow>
   field_error (steps ! i) pm = Some e \<Longrightarrow>
   fst (assign_all steps pm cfg) = Inl e \<and>
   (\<forall>j<i. snd (assign_all steps pm cfg) (fst (steps ! j)) = field_value (steps ! j) pm) \<and>
   (\<forall>k. k \<notin> fst ` set (take i steps) \<longrightarrow> snd (assign_all steps pm cfg) k = cfg k)"
proof (induction steps arbitrary: i cfg)
  case Nil
  then show ?case by simp
next
  case (Cons a steps)
  obtain k conv where a: "a = (k, conv)" by (cases a)
  show ?case
  proof (cases i)
    case 0
    with Cons.prems a show ?thesis
      by (auto simp: field_error_def split: option.splits sum.splits)
  next
    case (Suc n)
    from Cons.prems Suc have ok: "field_error a pm = None" by auto
    then obtain v v' where v: "pm k = Some v" "conv v = Inr v'"
      by (auto simp: field_error_def a split: option.splits sum.splits)
    have step: "assign_all (a # steps) pm cfg = assign_all steps pm (cfg(k \<mapsto> v'))"
      by (simp add: a v)
    have n: "n < length steps" using Cons.prems Suc by simp
    have d: "distinct (map fst steps)" using Cons.prems by simp
    have pre: "\<forall>j<n. field_error (steps ! j) pm = None"
      using Cons.prems(3) Suc by auto
    have f: "field_error (steps ! n) pm = Some e" using Cons.prems(4) Suc by simp
    note IH = Cons.IH [OF n d pre f, of "cfg(k \<mapsto> v')"]
    note IH1 = IH [THEN conjunct1]
    note IH2 = IH [THEN conjunct2, THEN conjunct1, rule_format]
    note IH3 = IH [THEN conjunct2, THEN conjunct2, rule_format]
    have knot: "k \<notin> fst ` set (take n steps)"
      using Cons.prems(2) a by (auto dest!: in_set_takeD)
    have "\<forall>j<i. snd (assign_all (a # steps) pm cfg) (fst ((a # steps) ! j)) = field_value ((a # steps) ! j) pm"
    proof (intro allI impI)
      fix j assume j: "j < i"
      show "snd (assign_all (a # steps) pm cfg) (fst ((a # steps) ! j)) = field_value ((a # steps) ! j) pm"
      proof (cases j)
        case 0
        have "snd (assign_all steps pm (cfg(k \<mapsto> v'))) k = (cfg(k \<mapsto> v')) k"
          by (rule IH3 [OF knot])
        with 0 show ?thesis
          by (simp add: step a field_value_def v)
      next
        case (Suc m)
        with j \<open>i = Suc n\<close> have "m < n" by simp
        from IH2 [OF this] Suc show ?thesis by (simp add: step)
      qed
    qed
    moreover have "\<forall>k'. k' \<notin> fst ` set (take i (a # steps)) \<longrightarrow> snd (assign_all (a # steps) pm cfg) k' = cfg k'"
    proof (intro allI impI)
      fix k' assume "k' \<notin> fst ` set (take i (a # steps))"
      with Suc a have "k' \<noteq> k" "k' \<notin> fst ` set (take n steps)" by auto
      from IH3 [OF this(2)] this(1) show "snd (assign_all (a # steps) pm cfg) k' = cfg k'"
        by (simp add: step)
    qed
    moreover have "fst (assign_all (a # steps) pm cfg) = Inl e"
      unfolding step by (rule IH1)
    ultimately show ?thesis by blast
  qed
qed

lemma assign_all_success:
  "(\<forall>a \<in> set steps. field_error a pm = None) \<Longrightarrow> distinct (map fst steps) \<Longrightarrow>
   fst (assign_all steps pm cfg) = Inr () \<and>
   (\<forall>a \<in> set steps. snd (assign_all steps pm cfg) (fst a) = field_value a pm) \<and>
   (\<forall>k. k \<notin> fst ` set steps \<longrightarrow> snd (assign_all steps pm cfg) k = cfg k)"
proof (induction steps arbitrary: cfg)
  case Nil
  then show ?case by simp
next
  case (Cons a steps)
  obtain k conv where a: "a = (k, conv)" by (cases a)
  from Cons.prems have ok: "field_error a pm = None" by auto
  then obtain v v' where v: "pm k = Some v" "conv v = Inr v'"
    by (auto simp: field_error_def a split: option.splits sum.splits)
  have step: "assign_all (a # steps) pm cfg = assign_all steps pm (cfg(k \<mapsto> v'))"
    by (simp add: a v)
  have IH: "fst (assign_all steps pm (cfg(k \<mapsto> v'))) = Inr () \<and>
   (\<forall>a \<in> set steps. snd (assign_all steps pm (cfg(k \<mapsto> v'))) (fst a) = field_value a pm) \<and>
   (\<forall>k'. k' \<notin> fst ` set steps \<longrightarrow> snd (assign_all steps pm (cfg(k \<mapsto> v'))) k' = (cfg(k \<mapsto> v')) k')"
    by (rule Cons.IH) (use Cons.prems in auto)
  have knot: "k \<notin> fst ` set steps" using Cons.prems(2) a by auto
  note IH1 = IH [THEN conjunct1]
  note IH2 = IH [THEN conjunct2, THEN conjunct1, rule_format]
  note IH3 = IH [THEN conjunct2, THEN conjunct2, rule_format]
  have "snd (assign_all steps pm (cfg(k \<mapsto> v'))) k = (cfg(k \<mapsto> v')) k"
    by (rule IH3 [OF knot])
  then have h: "snd (assign_all (a # steps) pm cfg) (fst a) = field_value a pm"
    by (simp add: step a field_value_def v)
  have t: "\<forall>b \<in> set steps. snd (assign_all (a # steps) pm cfg) (fst b) = field_value b pm"
    unfolding step using IH2 by blast
  have r: "\<forall>k'. k' \<notin> fst ` set (a # steps) \<longrightarrow> snd (assign_all (a # steps) pm cfg) k' = cfg k'"
  proof (intro allI impI)
    fix k' assume "k' \<notin> fst ` set (a # steps)"
    with a have "k' \<noteq> k" "k' \<notin> fst ` set steps" by auto
    from IH3 [OF this(2)] this(1) show "snd (assign_all (a # steps) pm cfg) k' = cfg k'"
      by (simp add: step)
  qed
  have "fst (assign_all (a # steps) pm cfg) = Inr ()"
    unfolding step by (rule IH1)
  with h t r show ?case by simp
qed

lemma assign_all_failure_conv:
  "fst (assign_all steps pm cfg) = Inl e \<Longrightarrow> \<exists>a \<in> set steps. field_error a pm = Some e"
proof (induction steps arbitrary: cfg)
  case Nil
  then show ?case by simp
next
  case (Cons a steps)
  obtain k conv where a: "a = (k, conv)" by (cases a)
  show ?case
  proof (cases "field_error a pm")
    case None
    then obtain v v' where v: "pm k = Some v" "conv v = Inr v'"
      by (auto simp: field_error_def a split: option.splits sum.splits)
    have "assign_all (a # steps) pm cfg = assign_all steps pm (cfg(k \<mapsto> v'))"
      by (simp add: a v)
    with Cons.prems have "fst (assign_all steps pm (cfg(k \<mapsto> v'))) = Inl e" by simp
    from Cons.IH [OF this] show ?thesis by auto
  next
    case (Some e')
    then have "fst (assign_all (a # steps) pm cfg) = Inl e'"
      by (auto simp: field_error_def a split: option.splits sum.splits)
    with Cons.prems Some show ?thesis by simp
  qed
qed


lemma assign_all_ok_all:
  "fst (assign_all steps pm cfg) = Inr () \<Longrightarrow> \<forall>a \<in> set steps. field_error a pm = None"
proof (induction steps arbitrary: cfg)
  case Nil
  then show ?case by simp
next
  case (Cons a steps)
  obtain k conv where a: "a = (k, conv)" by (cases a)
  show ?case
  proof (cases "field_error a pm")
    case None
    then obtain v v' where v: "pm k = Some v" "conv v = Inr v'"
      by (auto simp: field_error_def a split: option.splits sum.splits)
    have "assign_all (a # steps) pm cfg = assign_all steps pm (cfg(k \<mapsto> v'))"
      by (simp add: a v)
    with Cons.prems have "fst (assign_all steps pm (cfg(k \<mapsto> v'))) = Inr ()" by simp
    from Cons.IH [OF this] None show ?thesis by simp
  next
    case (Some e')
    then have "fst (assign_all (a # steps) pm cfg) = Inl e'"
      by (auto simp: field_error_def a split: option.splits sum.splits)
    with Cons.prems show ?thesis by simp
  qed
qed

subsection \<open>The bulk update\<close>

lemma set_values_keys:
  "map fst (set_values_assignments bi) =
     [''dataset_folder'', ''model_name'', ''epochs'', ''batch_size'', ''input_size'',
      ''workers'', ''optimizer'', ''weight_decay'', ''momentum'', ''lr0'', ''lrf'',
      ''config_file'', ''dataset_split_ratio'', ''output_folder'']"
  by (simp add: set_values_assignments_def)

lemma set_values_distinct: "distinct (map fst (set_values_assignments bi))"
  unfolding set_values_keys by simp

lemma field_error_None_value:
  "field_error a pm = None \<Longrightarrow> field_value a pm \<noteq> None"
  by (auto simp: field_error_def field_value_def split: option.splits sum.splits)

lemma py_str_is_str: "py_str bi v = Inr x \<Longrightarrow> is_str x"
  by (auto simp: py_str_def split: pyval.splits sum.splits)

lemma py_int_is_int: "py_int bi v = Inr x \<Longrightarrow> is_int x"
  by (auto simp: py_int_def split: pyval.splits sum.splits if_splits)

lemma py_float_is_float: "py_float bi v = Inr x \<Longrightarrow> is_float x"
  by (auto simp: py_float_def split: pyval.splits sum.splits)

lemma py_int_digits: "py_int bi (PStr ''100'') = Inr (PInt 100)"
  by (simp add: py_int_def plain_digits_def is_digit_def decimal_value_def digit_value_def)

text \<open>
  C9. \<^verbatim>\<open>set_values\<close> is not atomic. Its assignments run in the order dataset_folder,
  model_name, epochs, batch_size, input_size, workers, optimizer, weight_decay, momentum,
  lr0, lrf, config_file, dataset_split_ratio, output_folder. When the assignment at
  position \<open>i\<close> is the first to fail (its key is missing from \<^verbatim>\<open>param_map\<close>, or its
  value does not convert), the call raises that assignment's exception, every field
  before position \<open>i\<close> holds its new, converted value, and the failing field and all
  later ones hold what they held before the call.
\<close>

theorem set_values_not_atomic:
  assumes "i < length (set_values_assignments bi)"
    and "\<forall>j<i. field_error (set_values_assignments bi ! j) param_map = None"
    and "field_error (set_values_assignments bi ! i) param_map = Some e"
  shows "map fst (set_values_assignments bi) =
           [''dataset_folder'', ''model_name'', ''epochs'', ''batch_size'', ''input_size'',
            ''workers'', ''optimizer'', ''weight_decay'', ''momentum'', ''lr0'', ''lrf'',
            ''config_file'', ''dataset_split_ratio'', ''output_folder''] \<and>
         fst (set_values bi param_map cfg) = Inl e \<and>
         (\<forall>j<i. snd (set_values bi param_map cfg) (fst (set_values_assignments bi ! j)) =
                  field_value (set_values_assignments bi ! j) param_map \<and>
                field_value (set_values_assignments bi ! j) param_map \<noteq> None) \<and>
         (\<forall>j. i \<le> j \<and> j < length (set_values_assignments bi) \<longrightarrow>
              snd (set_values bi param_map cfg) (fst (set_values_assignments bi ! j)) =
              cfg (fst (set_values_assignments bi ! j)))"
proof -
  let ?steps = "set_values_assignments bi"
  note F = assign_all_first_failure [OF assms(1) set_values_distinct assms(2) assms(3), of cfg]
  have later: "snd (set_values bi param_map cfg) (fst (?steps ! j)) = cfg (fst (?steps ! j))"
    if "i \<le> j" "j < length ?steps" for j
  proof -
    have "fst (?steps ! j) \<notin> fst ` set (take i ?steps)"
    proof
      assume "fst (?steps ! j) \<in> fst ` set (take i ?steps)"
      then obtain n where n: "n < i" "fst (?steps ! n) = fst (?steps ! j)"
        using assms(1) by (auto simp: in_set_conv_nth)
      with that assms(1) have e: "map fst ?steps ! n = map fst ?steps ! j"
        and l: "n < length (map fst ?steps)" "j < length (map fst ?steps)"
        by simp_all
      have "n = j"
        using nth_eq_iff_index_eq [OF set_values_distinct l] e by blast
      with n that show False by simp
    qed
    with F show ?thesis by (simp add: set_values_def)
  qed
  from F assms(2) later show ?thesis
    by (simp add: set_values_def set_values_keys field_error_None_value)
qed

text \<open>
  C2. \<^verbatim>\<open>set_values\<close> converts thirteen of its fourteen values to the declared type,
  but stores \<^verbatim>\<open>config_file\<close> as it comes. On a \<^verbatim>\<open>param_map\<close> whose epochs is the
  string \<^verbatim>\<open>"100"\<close> and whose config_file is the integer 7, the call succeeds, epochs
  is stored as the integer 100, and config_file is stored as the integer 7, which is
  not a string.
\<close>

theorem set_values_stores_config_file_raw:
  "fst (set_values bi loose_param_map cfg) = Inr () \<and>
   snd (set_values bi loose_param_map cfg) ''epochs'' = Some (PInt 100) \<and>
   snd (set_values bi loose_param_map cfg) ''config_file'' = Some (PInt 7) \<and>
   \<not> is_str (PInt 7)"
  by (simp add: set_values_def set_values_assignments_def loose_param_map_def
      py_str_def py_float_def py_int_def plain_digits_def is_digit_def decimal_value_def
      digit_value_def)

subsection \<open>The defaults\<close>

lemma literal_0_9: "denotes 0x3FECCCCCCCCCCCCD (9 / 10)"
  by (simp add: denotes_def float_exponent_def float_mantissa_def float_ulp_def float_value_def)

lemma literal_0_0005: "denotes 0x3F40624DD2F1A9FC (5 / 10000)"
  by (simp add: denotes_def float_exponent_def float_mantissa_def float_ulp_def float_value_def)

lemma literal_0_937: "denotes 0x3FEDFBE76C8B4396 (937 / 1000)"
  by (simp add: denotes_def float_exponent_def float_mantissa_def float_ulp_def float_value_def)

lemma literal_0_01: "denotes 0x3F847AE147AE147B (1 / 100)"
  by (simp add: denotes_def float_exponent_def float_mantissa_def float_ulp_def float_value_def)

text \<open>
  C3. A freshly constructed configuration holds the defaults of the table: model_name
  "yolov8m-cls", epochs 100, batch_size 8, input_size 640, dataset_split_ratio 0.9,
  workers 0, optimizer "auto", weight_decay 0.0005, momentum 0.937, lr0 and lrf 0.01,
  config_file "", dataset_folder the "dataset" folder beside the source file,
  output_folder "/runs/" appended to the source file's folder; and it holds nothing
  else that the host's base class did not put there. Each float is the double that
  the decimal literal denotes.
\<close>

theorem fresh_configuration_defaults:
  "TrainYoloV8ClassificationParam_init base here ''model_name'' = Some (PStr ''yolov8m-cls'') \<and>
   TrainYoloV8ClassificationParam_init base here ''epochs'' = Some (PInt 100) \<and>
   TrainYoloV8ClassificationParam_init base here ''batch_size'' = Some (PInt 8) \<and>
   TrainYoloV8ClassificationParam_init base here ''input_size'' = Some (PInt 640) \<and>
   (\<exists>w. TrainYoloV8ClassificationParam_init base here ''dataset_split_ratio'' = Some (PFloat w) \<and>
        denotes w (9 / 10)) \<and>
   TrainYoloV8ClassificationParam_init base here ''workers'' = Some (PInt 0) \<and>
   TrainYoloV8ClassificationParam_init base here ''optimizer'' = Some (PStr ''auto'') \<and>
   (\<exists>w. TrainYoloV8ClassificationParam_init base here ''weight_decay'' = Some (PFloat w) \<and>
        denotes w (5 / 10000)) \<and>
   (\<exists>w. TrainYoloV8ClassificationParam_init base here ''momentum'' = Some (PFloat w) \<and>
        denotes w (937 / 1000)) \<and>
   (\<exists>w. TrainYoloV8ClassificationParam_init base here ''lr0'' = Some (PFloat w) \<and>
        denotes w (1 / 100)) \<and>
   (\<exists>w. TrainYoloV8ClassificationParam_init base here ''lrf'' = Some (PFloat w) \<and>
        denotes w (1 / 100)) \<and>
   TrainYoloV8ClassificationParam_init base here ''config_file'' = Some (PStr []) \<and>
   TrainYoloV8ClassificationParam_init base here ''dataset_folder'' =
     Some (PStr (path_join here ''dataset'')) \<and>
   TrainYoloV8ClassificationParam_init base here ''output_folder'' =
     Some (PStr (here @ ''/runs/'')) \<and>
   dom (TrainYoloV8ClassificationParam_init base here) =
     dom base \<union>
     {''dataset_folder'', ''model_name'', ''epochs'', ''batch_size'', ''input_size'',
      ''dataset_split_ratio'', ''workers'', ''optimizer'', ''weight_decay'', ''momentum'',
      ''lr0'', ''lrf'', ''config_file'', ''output_folder''}"
proof -
  have "dom (TrainYoloV8ClassificationParam_init base here) =
     dom base \<union>
     {''dataset_folder'', ''model_name'', ''epochs'', ''batch_size'', ''input_size'',
      ''dataset_split_ratio'', ''workers'', ''optimizer'', ''weight_decay'', ''momentum'',
      ''lr0'', ''lrf'', ''config_file'', ''output_folder''}"
    unfolding TrainYoloV8ClassificationParam_init_def by auto
  then show ?thesis
    using literal_0_9 literal_0_0005 literal_0_937 literal_0_01
    by (simp add: TrainYoloV8ClassificationParam_init_def)
qed

text \<open>The defaults of a plugin installed in \<^verbatim>\<open>/plugin\<close>, on an empty base.\<close>

theorem fresh_configuration_defaults_witness:
  "TrainYoloV8ClassificationParam_init Map.empty ''/plugin'' ''dataset_folder'' =
     Some (PStr ''/plugin/dataset'') \<and>
   TrainYoloV8ClassificationParam_init Map.empty ''/plugin'' ''output_folder'' =
     Some (PStr ''/plugin/runs/'') \<and>
   TrainYoloV8ClassificationParam_init Map.empty ''/plugin'' ''epochs'' = Some (PInt 100) \<and>
   dom (TrainYoloV8ClassificationParam_init Map.empty ''/plugin'') =
     {''dataset_folder'', ''model_name'', ''epochs'', ''batch_size'', ''input_size'',
      ''dataset_split_ratio'', ''workers'', ''optimizer'', ''weight_decay'', ''momentum'',
      ''lr0'', ''lrf'', ''config_file'', ''output_folder''}"
  using fresh_configuration_defaults [of Map.empty "''/plugin''"]
  by (simp add: path_join_def)

text \<open>
  A \<^verbatim>\<open>param_map\<close> without epochs: the call raises KeyError at the third assignment,
  model_name is already updated, epochs and batch_size keep the defaults.
\<close>

theorem set_values_not_atomic_witness:
  "field_error (set_values_assignments plain_builtins ! 2) (loose_param_map(''epochs'' := None)) =
     Some (KeyError ''epochs'') \<and>
   fst (set_values plain_builtins (loose_param_map(''epochs'' := None)) demo_cfg) =
     Inl (KeyError ''epochs'') \<and>
   snd (set_values plain_builtins (loose_param_map(''epochs'' := None)) demo_cfg) ''model_name'' =
     Some (PStr ''yolov8n-cls'') \<and>
   snd (set_values plain_builtins (loose_param_map(''epochs'' := None)) demo_cfg) ''epochs'' =
     Some (PInt 100) \<and>
   snd (set_values plain_builtins (loose_param_map(''epochs'' := None)) demo_cfg) ''batch_size'' =
     Some (PInt 8)"
proof -
  let ?steps = "set_values_assignments plain_builtins"
  let ?pm = "loose_param_map(''epochs'' := None)"
  have i: "2 < length ?steps"
    by (simp add: set_values_assignments_def)
  have before: "\<forall>j<2. field_error (?steps ! j) ?pm = None"
    by (simp add: less_Suc_eq numeral_2_eq_2 set_values_assignments_def field_error_def
        loose_param_map_def py_str_def)
  have at: "field_error (?steps ! 2) ?pm = Some (KeyError ''epochs'')"
    by (simp add: set_values_assignments_def field_error_def loose_param_map_def)
  have v1: "field_value (?steps ! 1) ?pm = Some (PStr ''yolov8n-cls'')"
    by (simp add: set_values_assignments_def field_value_def loose_param_map_def py_str_def)
  have k: "fst (?steps ! 1) = ''model_name''" "fst (?steps ! 2) = ''epochs''"
    "fst (?steps ! 3) = ''batch_size''"
    by (simp_all add: set_values_assignments_def)
  have c: "demo_cfg ''epochs'' = Some (PInt 100)" "demo_cfg ''batch_size'' = Some (PInt 8)"
    by (simp_all add: demo_cfg_def TrainYoloV8ClassificationParam_init_def)
  have l3: "(2::nat) \<le> 3 \<and> 3 < length ?steps" "(2::nat) \<le> 2 \<and> 2 < length ?steps"
    by (simp_all add: set_values_assignments_def)
  note T = set_values_not_atomic [OF i before at, of demo_cfg]
  note T2 = T [THEN conjunct2, THEN conjunct1]
  note T3 = T [THEN conjunct2, THEN conjunct2, THEN conjunct1, rule_format, of 1, THEN conjunct1]
  note T4 = T [THEN conjunct2, THEN conjunct2, THEN conjunct2, rule_format]
  have "snd (set_values plain_builtins ?pm demo_cfg) ''model_name'' = Some (PStr ''yolov8n-cls'')"
    using T3 unfolding k v1 by simp
  moreover have "snd (set_values plain_builtins ?pm demo_cfg) ''epochs'' = Some (PInt 100)"
    using T4 [OF l3(2)] unfolding k c .
  moreover have "snd (set_values plain_builtins ?pm demo_cfg) ''batch_size'' = Some (PInt 8)"
    using T4 [OF l3(1)] unfolding k c .
  ultimately show ?thesis using at T2 by blast
qed

text \<open>
  What a successful \<^verbatim>\<open>set_values\<close> does store: strings, integers and floats where
  it converts, and the caller's own value for config_file.
\<close>

lemma set_values_types:
  assumes "fst (set_values bi param_map cfg) = Inr ()"
  shows "(\<forall>k \<in> {''dataset_folder'', ''model_name'', ''optimizer'', ''output_folder''}.
            \<exists>v. snd (set_values bi param_map cfg) k = Some v \<and> is_str v) \<and>
         (\<forall>k \<in> {''epochs'', ''batch_size'', ''input_size'', ''workers''}.
            \<exists>v. snd (set_values bi param_map cfg) k = Some v \<and> is_int v) \<and>
         (\<forall>k \<in> {''weight_decay'', ''momentum'', ''lr0'', ''lrf'', ''dataset_split_ratio''}.
            \<exists>v. snd (set_values bi param_map cfg) k = Some v \<and> is_float v) \<and>
         snd (set_values bi param_map cfg) ''config_file'' = param_map ''config_file'' \<and>
         param_map ''config_file'' \<noteq> None"
proof -
  let ?steps = "set_values_assignments bi"
  from assms have ok: "\<forall>a \<in> set ?steps. field_error a param_map = None"
    unfolding set_values_def by (rule assign_all_ok_all)
  from assign_all_success [OF ok set_values_distinct, of cfg]
  have vals: "\<forall>a \<in> set ?steps. snd (set_values bi param_map cfg) (fst a) = field_value a param_map"
    by (simp add: set_values_def)
  have str: "\<exists>v. field_value (k, py_str bi) param_map = Some v \<and> is_str v"
    if "field_error (k, py_str bi) param_map = None" for k
    using that by (auto simp: field_error_def field_value_def py_str_is_str
        split: option.splits sum.splits)
  have int: "\<exists>v. field_value (k, py_int bi) param_map = Some v \<and> is_int v"
    if "field_error (k, py_int bi) param_map = None" for k
    using that by (auto simp: field_error_def field_value_def py_int_is_int
        split: option.splits sum.splits)
  have flt: "\<exists>v. field_value (k, py_float bi) param_map = Some v \<and> is_float v"
    if "field_error (k, py_float bi) param_map = None" for k
    using that by (auto simp: field_error_def field_value_def py_float_is_float
        split: option.splits sum.splits)
  have raw: "field_value (k, Inr) param_map = param_map k \<and> param_map k \<noteq> None"
    if "field_error (k, Inr) param_map = None" for k
    using that by (auto simp: field_error_def field_value_def split: option.splits)
  from ok vals str int flt raw show ?thesis
    by (simp add: set_values_assignments_def)
qed

section \<open>Properties of the task\<close>

subsection \<open>Running a program step by step\<close>

lemma pbindE:
  assumes "pbind m k s = (r, s')"
  obtains (fail) e where "m s = (Inl e, s')" "r = Inl e"
        | (ok) x s1 where "m s = (Inr x, s1)" "k x s1 = (r, s')"
  using assms by (auto simp: pbind_def split: prod.splits sum.splits)

lemma extE:
  assumes "ext env c s = (r, s')"
  obtains w' where "env c (world s) = (r, w')"
    "s' = s\<lparr>log := log s @ [(c, r)], world := w'\<rparr>"
  using assms by (auto simp: ext_def split: prod.splits)

lemma cfg_getE:
  assumes "cfg_get k s = (r, s')"
  obtains (missing) "s' = s" "param_cfg s k = None" "r = Inl (KeyError k)"
        | (found) v where "s' = s" "param_cfg s k = Some v" "r = Inr v"
  using assms by (auto simp: cfg_get_def split: option.splits)

lemma liftE:
  assumes "lift x s = (r, s')"
  obtains "s' = s" "x = r"
  using assms by (auto simp: lift_def)

lemma returnE:
  assumes "return x s = (r, s')"
  obtains "s' = s" "r = Inr x"
  using assms by (auto simp: return_def)

lemma load_config_file_cases:
  assumes "load_config_file env path s = (r, s')"
  shows "(\<exists>e w1. r = Inl e \<and>
            s' = s\<lparr>log := log s @ [(Open path ''r'', Inl e)], world := w1\<rparr>) \<or>
         (\<exists>fh r1 r2 w3.
            s' = s\<lparr>log := log s @ [(Open path ''r'', Inr fh), (Yaml_safe_load fh, r1),
                                    (Close fh, r2)], world := w3\<rparr> \<and>
            r = (case r2 of Inl e \<Rightarrow> Inl e | Inr u \<Rightarrow> r1))"
proof (cases "env (Open path ''r'') (world s)")
  case (Pair o1 w1)
  show ?thesis
  proof (cases o1)
    case (Inl e)
    with Pair assms show ?thesis
      by (auto simp: load_config_file_def ext_def pbind_def)
  next
    case (Inr fh)
    obtain r1 w2 where l: "env (Yaml_safe_load fh) w1 = (r1, w2)" by force
    obtain r2 w3 where c: "env (Close fh) w2 = (r2, w3)" by force
    from Pair Inr l c assms have
      "s' = s\<lparr>log := log s @ [(Open path ''r'', Inr fh), (Yaml_safe_load fh, r1),
                              (Close fh, r2)], world := w3\<rparr>"
      "r = (case r2 of Inl e \<Rightarrow> Inl e | Inr u \<Rightarrow> r1)"
      by (auto simp: load_config_file_def ext_def pbind_def split: sum.splits)
    then show ?thesis by blast
  qed
qed

lemma load_config_fileE:
  assumes "load_config_file env path s = (r, s')"
  obtains (open_failed) e w1 where "r = Inl e"
      "s' = s\<lparr>log := log s @ [(Open path ''r'', Inl e)], world := w1\<rparr>"
  | (closed) fh r1 r2 w3 where
      "s' = s\<lparr>log := log s @ [(Open path ''r'', Inr fh), (Yaml_safe_load fh, r1),
                              (Close fh, r2)], world := w3\<rparr>"
      "r = (case r2 of Inl e \<Rightarrow> Inl e | Inr u \<Rightarrow> r1)"
  using load_config_file_cases [OF assms] by blast

lemmas phase_defs = select_device_def determine_model_name_def create_model_def
  create_output_folder_def train_model_def

lemmas progE = pbindE extE cfg_getE liftE returnE load_config_fileE

subsection \<open>The expressions\<close>

lemma keyword_args_Inr:
  "keyword_args items = Inr kw \<Longrightarrow> items = map (\<lambda>(k, v). (PStr k, v)) kw"
proof (induction items arbitrary: kw rule: keyword_args.induct)
  case 1
  then show ?case by simp
next
  case (2 k v rest)
  then show ?case by (auto split: sum.splits)
qed simp_all

lemma dict_items_Inr: "dict_items doc = Inr items \<Longrightarrow> doc = PDict items"
  by (auto simp: dict_items_def split: pyval.splits)

lemma subscript_Inr:
  "subscript doc k = Inr x \<Longrightarrow> \<exists>items. doc = PDict items \<and> map_of items (PStr k) = Some x"
  by (auto simp: subscript_def split: pyval.splits option.splits)

lemma add_str_Inr: "add_str v suffix = Inr x \<Longrightarrow> \<exists>a. v = PStr a \<and> x = PStr (a @ suffix)"
  by (auto simp: add_str_def split: pyval.splits)

lemma py_strftime_Inr: "py_strftime v = Inr x \<Longrightarrow> \<exists>t. v = PDatetime t \<and> x = strftime t"
  by (auto simp: py_strftime_def split: pyval.splits)

lemma os_path_join_Inr:
  "os_path_join v b = Inr x \<Longrightarrow> \<exists>a. v = PStr a \<and> x = PStr (path_join a b)"
  by (auto simp: os_path_join_def split: pyval.splits)

lemmas exprD = keyword_args_Inr dict_items_Inr subscript_Inr add_str_Inr py_strftime_Inr
  os_path_join_Inr

subsection \<open>Transcripts of run\<close>

lemma run_config_trained:
  assumes "log s = []" and "run env s = (r, s')" and "param_cfg s ''config_file'' = Some cf"
    and "truthy cf" and "(Train m kw, a) \<in> set (log s')"
  shows "\<exists>u0 data avail fh items u1 name u2 now folder u3 u4 rest.
           log s' =
             [(Begin_task_run, Inr u0), (Get_input_path 0, Inr data),
              (Cuda_is_available, Inr avail), (Open cf ''r'', Inr fh),
              (Yaml_safe_load fh, Inr (PDict items)), (Close fh, Inr u1),
              (YOLO name, Inr m),
              (Add_callback m ''on_fit_epoch_end'' ''custom_callbacks.on_fit_epoch_end'', Inr u2),
              (Datetime_now, Inr (PDatetime now)), (Makedirs (PStr folder) True, Inr u3),
              (Makedirs (PStr (path_join folder (strftime now))) True, Inr u4),
              (Train m kw, a)] @ rest \<and>
           (\<forall>c b. (c, b) \<in> set rest \<longrightarrow> c = Emit_step_progress \<or> c = End_task_run) \<and>
           items = map (\<lambda>(k, v). (PStr k, v)) kw \<and>
           map_of items (PStr ''model'') = Some name \<and>
           param_cfg s ''output_folder'' = Some (PStr folder)"
  using assms
  by (auto simp: run_def phase_defs elim!: progE split: sum.splits dest!: exprD)

lemma run_mapped_trained:
  assumes "log s = []" and "run env s = (r, s')" and "param_cfg s ''config_file'' = Some cf"
    and "\<not> truthy cf" and "(Train m kw, a) \<in> set (log s')"
  shows "\<exists>u0 data avail mn u2 now folder u3 u4 rest epochs input_size batch_size workers
            optimizer momentum weight_decay lr0 lrf.
           log s' =
             [(Begin_task_run, Inr u0), (Get_input_path 0, Inr data),
              (Cuda_is_available, Inr avail),
              (YOLO (PStr (mn @ ''.pt'')), Inr m),
              (Add_callback m ''on_fit_epoch_end'' ''custom_callbacks.on_fit_epoch_end'', Inr u2),
              (Datetime_now, Inr (PDatetime now)), (Makedirs (PStr folder) True, Inr u3),
              (Makedirs (PStr (path_join folder (strftime now))) True, Inr u4),
              (Train m kw, a)] @ rest \<and>
           (\<forall>c b. (c, b) \<in> set rest \<longrightarrow> c = Emit_step_progress \<or> c = End_task_run) \<and>
           param_cfg s ''model_name'' = Some (PStr mn) \<and>
           param_cfg s ''output_folder'' = Some (PStr folder) \<and>
           param_cfg s ''epochs'' = Some epochs \<and>
           param_cfg s ''input_size'' = Some input_size \<and>
           param_cfg s ''batch_size'' = Some batch_size \<and>
           param_cfg s ''workers'' = Some workers \<and>
           param_cfg s ''optimizer'' = Some optimizer \<and>
           param_cfg s ''momentum'' = Some momentum \<and>
           param_cfg s ''weight_decay'' = Some weight_decay \<and>
           param_cfg s ''lr0'' = Some lr0 \<and>
           param_cfg s ''lrf'' = Some lrf \<and>
           kw = [(''data'', data), (''epochs'', epochs), (''imgsz'', input_size),
                 (''batch'', batch_size), (''workers'', workers), (''optimizer'', optimizer),
                 (''momentum'', momentum), (''weight_decay'', weight_decay), (''lr0'', lr0),
                 (''lrf'', lrf), (''pretrained'', PBool True),
                 (''device'', torch_device avail),
                 (''project'', PStr (path_join folder (strftime now)))]"
  using assms
  by (auto simp: run_def phase_defs elim!: progE split: sum.splits dest!: exprD)

lemma run_mapped_no_file_calls:
  assumes "log s = []" and "run env s = (r, s')" and "param_cfg s ''config_file'' = Some cf"
    and "\<not> truthy cf" and "(c, a) \<in> set (log s')"
  shows "\<not> is_file_call c"
  using assms
  by (auto simp: run_def phase_defs elim!: progE split: sum.splits dest!: exprD)


lemma run_config_yolo:
  assumes "log s = []" and "run env s = (r, s')" and "param_cfg s ''config_file'' = Some cf"
    and "truthy cf" and "(YOLO name, a) \<in> set (log s')"
  shows "\<exists>u0 data avail fh items u1 rest.
           log s' =
             [(Begin_task_run, Inr u0), (Get_input_path 0, Inr data),
              (Cuda_is_available, Inr avail), (Open cf ''r'', Inr fh),
              (Yaml_safe_load fh, Inr (PDict items)), (Close fh, Inr u1),
              (YOLO name, a)] @ rest \<and>
           map_of items (PStr ''model'') = Some name \<and> model_name_file s' = name"
  using assms
  by (auto simp: run_def phase_defs elim!: progE split: sum.splits dest!: exprD)

lemma run_mapped_yolo:
  assumes "log s = []" and "run env s = (r, s')" and "param_cfg s ''config_file'' = Some cf"
    and "\<not> truthy cf" and "(YOLO name, a) \<in> set (log s')"
  shows "\<exists>u0 data avail mn rest.
           log s' =
             [(Begin_task_run, Inr u0), (Get_input_path 0, Inr data),
              (Cuda_is_available, Inr avail), (YOLO name, a)] @ rest \<and>
           param_cfg s ''model_name'' = Some (PStr mn) \<and> name = PStr (mn @ ''.pt'') \<and>
           model_name_file s' = name"
  using assms
  by (auto simp: run_def phase_defs elim!: progE split: sum.splits dest!: exprD)


lemma run_success_calls:
  assumes "log s = []" and "run env s = (Inr (), s')"
  shows "filter (\<lambda>c. c = Emit_step_progress) (map fst (log s')) = [Emit_step_progress] \<and>
         (\<exists>m kw. filter is_train (map fst (log s')) = [Train m kw])"
  using assms
  by (auto simp: run_def phase_defs elim!: progE split: if_splits)

subsection \<open>What run never loses\<close>












subsection \<open>The timestamp\<close>










subsection \<open>The runs in the concrete environment\<close>

lemmas demo_defs = run_def select_device_def determine_model_name_def create_model_def
  create_output_folder_def train_model_def load_config_file_def
  pbind_def ext_def return_def lift_def cfg_get_def
  demo_env_def demo_task_def demo_cfg_def TrainYoloV8ClassificationParam_init_def
  add_str_def py_strftime_def strftime_def two_digits_def four_digits_def digit_char_def
  os_path_join_def path_join_def torch_device_def subscript_def dict_items_def
  demo_document_def broken_document_def morning_def same_second_def next_second_def
  mapped_run_def config_run_def rerun_def

lemma mapped_run_once:
  "mapped_run [morning] =
     (Inr (),
      \<lparr>param_cfg = demo_cfg, device = PDevice ''cpu'',
       model_name_file = PStr ''yolov8m-cls.pt'', model = PObj 2, stop_training = False,
       log =
         [(Begin_task_run, Inr PNone), (Get_input_path 0, Inr (PStr ''/data/flowers'')),
          (Cuda_is_available, Inr (PBool False)), (YOLO (PStr ''yolov8m-cls.pt''), Inr (PObj 2)),
          (Add_callback (PObj 2) ''on_fit_epoch_end'' ''custom_callbacks.on_fit_epoch_end'',
           Inr PNone),
          (Datetime_now, Inr (PDatetime morning)), (Makedirs (PStr ''/out'') True, Inr PNone),
          (Makedirs (PStr ''/out/20240115_093005'') True, Inr PNone),
          (Train (PObj 2)
             [(''data'', PStr ''/data/flowers''), (''epochs'', PInt 100), (''imgsz'', PInt 640),
              (''batch'', PInt 8), (''workers'', PInt 0), (''optimizer'', PStr ''auto''),
              (''momentum'', PFloat 0x3FEDFBE76C8B4396),
              (''weight_decay'', PFloat 0x3F40624DD2F1A9FC),
              (''lr0'', PFloat 0x3F847AE147AE147B), (''lrf'', PFloat 0x3F847AE147AE147B),
              (''pretrained'', PBool True), (''device'', PDevice ''cpu''),
              (''project'', PStr ''/out/20240115_093005'')],
           Inr PNone),
          (Emit_step_progress, Inr PNone), (End_task_run, Inr PNone)],
       world = \<lparr>clock = [], document = PNone,
                dirs = [PStr ''/out/20240115_093005'', PStr ''/out'']\<rparr>\<rparr>)"
  by (simp add: demo_defs)

lemma config_run_once:
  "config_run demo_document =
     (Inr (),
      \<lparr>param_cfg = demo_cfg(''config_file'' \<mapsto> PStr ''/cfg/train.yaml''),
       device = PDevice ''cpu'', model_name_file = PStr ''yolov8n-cls.pt'', model = PObj 2,
       stop_training = False,
       log =
         [(Begin_task_run, Inr PNone), (Get_input_path 0, Inr (PStr ''/data/flowers'')),
          (Cuda_is_available, Inr (PBool False)),
          (Open (PStr ''/cfg/train.yaml'') ''r'', Inr (PObj 1)),
          (Yaml_safe_load (PObj 1), Inr demo_document), (Close (PObj 1), Inr PNone),
          (YOLO (PStr ''yolov8n-cls.pt''), Inr (PObj 2)),
          (Add_callback (PObj 2) ''on_fit_epoch_end'' ''custom_callbacks.on_fit_epoch_end'',
           Inr PNone),
          (Datetime_now, Inr (PDatetime morning)), (Makedirs (PStr ''/out'') True, Inr PNone),
          (Makedirs (PStr ''/out/20240115_093005'') True, Inr PNone),
          (Train (PObj 2)
             [(''model'', PStr ''yolov8n-cls.pt''), (''data'', PStr ''/data/birds''),
              (''epochs'', PInt 3)],
           Inr PNone),
          (Emit_step_progress, Inr PNone), (End_task_run, Inr PNone)],
       world = \<lparr>clock = [], document = demo_document,
                dirs = [PStr ''/out/20240115_093005'', PStr ''/out'']\<rparr>\<rparr>)"
  by (simp add: demo_defs)






subsection \<open>The two modes of the training call\<close>


lemma keyword_args_project:
  "((PStr k, v) \<in> set (map (\<lambda>(k, v). (PStr k, v)) kw)) = ((k, v) \<in> set kw)"
  by auto

text \<open>
  C1. The two ways of calling the training routine exclude each other. When
  \<^verbatim>\<open>config_file\<close> is set (truthy), every training call of the run receives exactly
  the key-value pairs of the document that the YAML parser returned for the file opened
  at that path, in the document's order, and so none of the individually mapped fields
  unless the document names it. When \<^verbatim>\<open>config_file\<close> is empty, no file is ever opened,
  and a training call receives the thirteen mapped keywords data, epochs, imgsz, batch,
  workers, optimizer, momentum, weight_decay, lr0, lrf, pretrained, device, project and
  no other. A successful run makes exactly one training call.
\<close>

theorem training_modes_exclusive:
  assumes "log s = []" and "run env s = (r, s')" and "param_cfg s ''config_file'' = Some cf"
  shows "(truthy cf \<longrightarrow>
            (\<forall>m kw a. (Train m kw, a) \<in> set (log s') \<longrightarrow>
               (\<exists>fh items. (Open cf ''r'', Inr fh) \<in> set (log s') \<and>
                  (Yaml_safe_load fh, Inr (PDict items)) \<in> set (log s') \<and>
                  items = map (\<lambda>(k, v). (PStr k, v)) kw))) \<and>
         (\<not> truthy cf \<longrightarrow>
            (\<forall>p mode a. (Open p mode, a) \<notin> set (log s')) \<and>
            (\<forall>m kw a. (Train m kw, a) \<in> set (log s') \<longrightarrow>
               map fst kw =
                 [''data'', ''epochs'', ''imgsz'', ''batch'', ''workers'', ''optimizer'',
                  ''momentum'', ''weight_decay'', ''lr0'', ''lrf'', ''pretrained'', ''device'',
                  ''project''])) \<and>
         (r = Inr () \<longrightarrow> (\<exists>m kw. filter is_train (map fst (log s')) = [Train m kw]))"
proof (intro conjI impI allI)
  fix m kw a
  assume "truthy cf" and "(Train m kw, a) \<in> set (log s')"
  from run_config_trained [OF assms this]
  show "\<exists>fh items. (Open cf ''r'', Inr fh) \<in> set (log s') \<and>
          (Yaml_safe_load fh, Inr (PDict items)) \<in> set (log s') \<and>
          items = map (\<lambda>(k, v). (PStr k, v)) kw"
    by auto
next
  fix p mode a
  assume "\<not> truthy cf"
  show "(Open p mode, a) \<notin> set (log s')"
  proof
    assume "(Open p mode, a) \<in> set (log s')"
    from run_mapped_no_file_calls [OF assms \<open>\<not> truthy cf\<close> this] show False by simp
  qed
next
  fix m kw a
  assume "\<not> truthy cf" and "(Train m kw, a) \<in> set (log s')"
  from run_mapped_trained [OF assms this]
  show "map fst kw =
          [''data'', ''epochs'', ''imgsz'', ''batch'', ''workers'', ''optimizer'',
           ''momentum'', ''weight_decay'', ''lr0'', ''lrf'', ''pretrained'', ''device'',
           ''project'']"
    by auto
next
  assume "r = Inr ()"
  with assms(1,2) run_success_calls [of s env s']
  show "\<exists>m kw. filter is_train (map fst (log s')) = [Train m kw]" by simp
qed

text \<open>
  In the concrete environment: the run with the default configuration opens no file and
  passes the thirteen keywords; the run with a config file passes the three pairs of the
  document.
\<close>

theorem training_modes_exclusive_witness:
  "\<not> truthy (PStr []) \<and>
   (Open (PStr ''/cfg/train.yaml'') ''r'', Inr (PObj 1)) \<notin> set (log (snd (mapped_run [morning]))) \<and>
   filter is_train (map fst (log (snd (mapped_run [morning])))) =
     [Train (PObj 2)
        [(''data'', PStr ''/data/flowers''), (''epochs'', PInt 100), (''imgsz'', PInt 640),
         (''batch'', PInt 8), (''workers'', PInt 0), (''optimizer'', PStr ''auto''),
         (''momentum'', PFloat 0x3FEDFBE76C8B4396),
         (''weight_decay'', PFloat 0x3F40624DD2F1A9FC),
         (''lr0'', PFloat 0x3F847AE147AE147B), (''lrf'', PFloat 0x3F847AE147AE147B),
         (''pretrained'', PBool True), (''device'', PDevice ''cpu''),
         (''project'', PStr ''/out/20240115_093005'')]] \<and>
   truthy (PStr ''/cfg/train.yaml'') \<and>
   (Train (PObj 2)
      [(''model'', PStr ''yolov8n-cls.pt''), (''data'', PStr ''/data/birds''),
       (''epochs'', PInt 3)], Inr PNone) \<in> set (log (snd (config_run demo_document))) \<and>
   (\<exists>fh items.
      (Open (PStr ''/cfg/train.yaml'') ''r'', Inr fh) \<in> set (log (snd (config_run demo_document))) \<and>
      (Yaml_safe_load fh, Inr (PDict items)) \<in> set (log (snd (config_run demo_document))) \<and>
      items = [(PStr ''model'', PStr ''yolov8n-cls.pt''), (PStr ''data'', PStr ''/data/birds''),
               (PStr ''epochs'', PInt 3)])"
proof -
  have m: "run demo_env (demo_task demo_cfg [morning] PNone) =
      (fst (mapped_run [morning]), snd (mapped_run [morning]))"
    by (simp add: mapped_run_def)
  have c: "run demo_env
       (demo_task (demo_cfg(''config_file'' \<mapsto> PStr ''/cfg/train.yaml'')) [morning]
          demo_document) =
      (fst (config_run demo_document), snd (config_run demo_document))"
    by (simp add: config_run_def)
  have l: "log (demo_task cfg rs doc) = []" for cfg rs doc
    by (simp add: demo_task_def)
  have k1: "param_cfg (demo_task demo_cfg [morning] PNone) ''config_file'' = Some (PStr [])"
    by (simp add: demo_task_def demo_cfg_def TrainYoloV8ClassificationParam_init_def)
  have k2: "param_cfg (demo_task (demo_cfg(''config_file'' \<mapsto> PStr ''/cfg/train.yaml''))
       [morning] demo_document) ''config_file'' = Some (PStr ''/cfg/train.yaml'')"
    by (simp add: demo_task_def)
  note T1 = training_modes_exclusive [OF l m k1]
  note T2 = training_modes_exclusive [OF l c k2]
  have t: "(Train (PObj 2)
      [(''model'', PStr ''yolov8n-cls.pt''), (''data'', PStr ''/data/birds''),
       (''epochs'', PInt 3)], Inr PNone) \<in> set (log (snd (config_run demo_document)))"
    by (simp add: config_run_once)
  have tr: "truthy (PStr ''/cfg/train.yaml'')" by simp
  from T2 [THEN conjunct1, rule_format, OF tr t] have "\<exists>fh items.
      (Open (PStr ''/cfg/train.yaml'') ''r'', Inr fh) \<in> set (log (snd (config_run demo_document))) \<and>
      (Yaml_safe_load fh, Inr (PDict items)) \<in> set (log (snd (config_run demo_document))) \<and>
      items = [(PStr ''model'', PStr ''yolov8n-cls.pt''), (PStr ''data'', PStr ''/data/birds''),
               (PStr ''epochs'', PInt 3)]"
    by (simp del: set_simps)
  moreover from T1 have
    "(Open (PStr ''/cfg/train.yaml'') ''r'', Inr (PObj 1)) \<notin> set (log (snd (mapped_run [morning])))"
    by simp
  ultimately show ?thesis using t by (simp add: mapped_run_once)
qed



text \<open>
  C10. With a config file, the timestamped output folder is made, under the configured
  output folder, but it is not handed to the training call: the call's keywords are
  exactly the pairs of the parsed document, the \<^verbatim>\<open>model\<close> pair among them, so a
  \<^verbatim>\<open>project\<close> keyword is passed only when the document itself holds one.
\<close>

theorem config_mode_project_not_passed:
  assumes "log s = []" and "run env s = (r, s')" and "param_cfg s ''config_file'' = Some cf"
    and "truthy cf" and "(Train m kw, a) \<in> set (log s')"
  shows "\<exists>fh items name now folder u3 u4.
           (Yaml_safe_load fh, Inr (PDict items)) \<in> set (log s') \<and>
           items = map (\<lambda>(k, v). (PStr k, v)) kw \<and>
           map_of items (PStr ''model'') = Some name \<and>
           (''model'', name) \<in> set kw \<and>
           (Datetime_now, Inr (PDatetime now)) \<in> set (log s') \<and>
           param_cfg s ''output_folder'' = Some (PStr folder) \<and>
           (Makedirs (PStr folder) True, Inr u3) \<in> set (log s') \<and>
           (Makedirs (PStr (path_join folder (strftime now))) True, Inr u4) \<in> set (log s') \<and>
           (\<forall>v. ((''project'', v) \<in> set kw) = ((PStr ''project'', v) \<in> set items))"
proof -
  from run_config_trained [OF assms]
  obtain u0 data avail fh items u1 name u2 now folder u3 u4 rest
    where L: "log s' =
             [(Begin_task_run, Inr u0), (Get_input_path 0, Inr data),
              (Cuda_is_available, Inr avail), (Open cf ''r'', Inr fh),
              (Yaml_safe_load fh, Inr (PDict items)), (Close fh, Inr u1),
              (YOLO name, Inr m),
              (Add_callback m ''on_fit_epoch_end'' ''custom_callbacks.on_fit_epoch_end'', Inr u2),
              (Datetime_now, Inr (PDatetime now)), (Makedirs (PStr folder) True, Inr u3),
              (Makedirs (PStr (path_join folder (strftime now))) True, Inr u4),
              (Train m kw, a)] @ rest"
      and I: "items = map (\<lambda>(k, v). (PStr k, v)) kw"
      and M: "map_of items (PStr ''model'') = Some name"
      and C: "param_cfg s ''output_folder'' = Some (PStr folder)"
    by blast
  have E: "(Yaml_safe_load fh, Inr (PDict items)) \<in> set (log s')"
    "(Datetime_now, Inr (PDatetime now)) \<in> set (log s')"
    "(Makedirs (PStr folder) True, Inr u3) \<in> set (log s')"
    "(Makedirs (PStr (path_join folder (strftime now))) True, Inr u4) \<in> set (log s')"
    by (simp_all add: L)
  have P: "\<forall>v. ((''project'', v) \<in> set kw) = ((PStr ''project'', v) \<in> set items)"
    unfolding I keyword_args_project by simp
  from M have "(PStr ''model'', name) \<in> set items" by (rule map_of_SomeD)
  then have N: "(''model'', name) \<in> set kw"
    unfolding I keyword_args_project .
  from E I M N C P show ?thesis by blast
qed

text \<open>The run with a config file, in the concrete environment: no project keyword.\<close>

theorem config_mode_project_not_passed_witness:
  "truthy (PStr ''/cfg/train.yaml'') \<and>
   (Train (PObj 2)
      [(''model'', PStr ''yolov8n-cls.pt''), (''data'', PStr ''/data/birds''),
       (''epochs'', PInt 3)], Inr PNone) \<in> set (log (snd (config_run demo_document))) \<and>
   (Makedirs (PStr ''/out/20240115_093005'') True, Inr PNone)
     \<in> set (log (snd (config_run demo_document))) \<and>
   (\<exists>items name.
      items = [(PStr ''model'', PStr ''yolov8n-cls.pt''), (PStr ''data'', PStr ''/data/birds''),
               (PStr ''epochs'', PInt 3)] \<and>
      map_of items (PStr ''model'') = Some name \<and>
      (PStr ''project'', PStr ''/out/20240115_093005'') \<notin> set items)"
proof -
  let ?kw = "[(''model'', PStr ''yolov8n-cls.pt''), (''data'', PStr ''/data/birds''),
       (''epochs'', PInt 3)]"
  have c: "run demo_env
       (demo_task (demo_cfg(''config_file'' \<mapsto> PStr ''/cfg/train.yaml'')) [morning]
          demo_document) =
      (fst (config_run demo_document), snd (config_run demo_document))"
    by (simp add: config_run_def)
  have l: "log (demo_task cfg rs doc) = []" for cfg rs doc
    by (simp add: demo_task_def)
  have k: "param_cfg (demo_task (demo_cfg(''config_file'' \<mapsto> PStr ''/cfg/train.yaml''))
       [morning] demo_document) ''config_file'' = Some (PStr ''/cfg/train.yaml'')"
    by (simp add: demo_task_def)
  have tr: "truthy (PStr ''/cfg/train.yaml'')" by simp
  have t: "(Train (PObj 2) ?kw, Inr PNone) \<in> set (log (snd (config_run demo_document)))"
    and d: "(Makedirs (PStr ''/out/20240115_093005'') True, Inr PNone)
     \<in> set (log (snd (config_run demo_document)))"
    by (simp_all add: config_run_once)
  from config_mode_project_not_passed [OF l c k tr t]
  obtain items name where "items = map (\<lambda>(k, v). (PStr k, v)) ?kw"
    and "map_of items (PStr ''model'') = Some name"
    and "\<forall>v. ((''project'', v) \<in> set ?kw) = ((PStr ''project'', v) \<in> set items)"
    by blast
  then have "items = [(PStr ''model'', PStr ''yolov8n-cls.pt''),
        (PStr ''data'', PStr ''/data/birds''), (PStr ''epochs'', PInt 3)] \<and>
      map_of items (PStr ''model'') = Some name \<and>
      (PStr ''project'', PStr ''/out/20240115_093005'') \<notin> set items"
    by simp
  with tr t d show ?thesis by blast
qed

subsection \<open>The model artifact\<close>

text \<open>
  C4. The name handed to the model constructor: without a config file it is the
  configured \<^verbatim>\<open>model_name\<close> with \<^verbatim>\<open>.pt\<close> appended, exactly; with a config file it is
  the value of the \<^verbatim>\<open>model\<close> key of the document parsed from that file. In both
  cases it is what the task keeps as \<^verbatim>\<open>model_name_file\<close>.
\<close>

theorem model_artifact_name:
  assumes "log s = []" and "run env s = (r, s')" and "param_cfg s ''config_file'' = Some cf"
    and "(YOLO name, a) \<in> set (log s')"
  shows "(\<not> truthy cf \<longrightarrow>
            (\<exists>mn. param_cfg s ''model_name'' = Some (PStr mn) \<and> name = PStr (mn @ ''.pt''))) \<and>
         (truthy cf \<longrightarrow>
            (\<exists>fh items. (Open cf ''r'', Inr fh) \<in> set (log s') \<and>
               (Yaml_safe_load fh, Inr (PDict items)) \<in> set (log s') \<and>
               map_of items (PStr ''model'') = Some name)) \<and>
         model_name_file s' = name"
proof (cases "truthy cf")
  case True
  from run_config_yolo [OF assms(1-3) True assms(4)]
  obtain u0 data avail fh items u1 rest
    where L: "log s' =
             [(Begin_task_run, Inr u0), (Get_input_path 0, Inr data),
              (Cuda_is_available, Inr avail), (Open cf ''r'', Inr fh),
              (Yaml_safe_load fh, Inr (PDict items)), (Close fh, Inr u1),
              (YOLO name, a)] @ rest"
      and M: "map_of items (PStr ''model'') = Some name" "model_name_file s' = name"
    by blast
  have "(Open cf ''r'', Inr fh) \<in> set (log s')"
    "(Yaml_safe_load fh, Inr (PDict items)) \<in> set (log s')"
    by (simp_all add: L)
  with M True show ?thesis by blast
next
  case False
  from run_mapped_yolo [OF assms(1-3) False assms(4)] False show ?thesis by blast
qed

text \<open>Both modes in the concrete environment.\<close>

theorem model_artifact_name_witness:
  "(YOLO (PStr ''yolov8m-cls.pt''), Inr (PObj 2)) \<in> set (log (snd (mapped_run [morning]))) \<and>
   demo_cfg ''model_name'' = Some (PStr ''yolov8m-cls'') \<and>
   model_name_file (snd (mapped_run [morning])) = PStr ''yolov8m-cls.pt'' \<and>
   (YOLO (PStr ''yolov8n-cls.pt''), Inr (PObj 2)) \<in> set (log (snd (config_run demo_document))) \<and>
   model_name_file (snd (config_run demo_document)) = PStr ''yolov8n-cls.pt'' \<and>
   (\<exists>fh items.
      (Yaml_safe_load fh, Inr (PDict items)) \<in> set (log (snd (config_run demo_document))) \<and>
      map_of items (PStr ''model'') = Some (PStr ''yolov8n-cls.pt''))"
proof -
  have m: "run demo_env (demo_task demo_cfg [morning] PNone) =
      (fst (mapped_run [morning]), snd (mapped_run [morning]))"
    by (simp add: mapped_run_def)
  have c: "run demo_env
       (demo_task (demo_cfg(''config_file'' \<mapsto> PStr ''/cfg/train.yaml'')) [morning]
          demo_document) =
      (fst (config_run demo_document), snd (config_run demo_document))"
    by (simp add: config_run_def)
  have l: "log (demo_task cfg rs doc) = []" for cfg rs doc
    by (simp add: demo_task_def)
  have k1: "param_cfg (demo_task demo_cfg [morning] PNone) ''config_file'' = Some (PStr [])"
    by (simp add: demo_task_def demo_cfg_def TrainYoloV8ClassificationParam_init_def)
  have k2: "param_cfg (demo_task (demo_cfg(''config_file'' \<mapsto> PStr ''/cfg/train.yaml''))
       [morning] demo_document) ''config_file'' = Some (PStr ''/cfg/train.yaml'')"
    by (simp add: demo_task_def)
  have y1: "(YOLO (PStr ''yolov8m-cls.pt''), Inr (PObj 2)) \<in> set (log (snd (mapped_run [morning])))"
    by (simp add: mapped_run_once)
  have y2: "(YOLO (PStr ''yolov8n-cls.pt''), Inr (PObj 2))
      \<in> set (log (snd (config_run demo_document)))"
    by (simp add: config_run_once)
  have n: "demo_cfg ''model_name'' = Some (PStr ''yolov8m-cls'')"
    by (simp add: demo_cfg_def TrainYoloV8ClassificationParam_init_def)
  note T1 = model_artifact_name [OF l m k1 y1]
  note T2 = model_artifact_name [OF l c k2 y2]
  have tr: "truthy (PStr ''/cfg/train.yaml'')" by simp
  from T2 [THEN conjunct2, THEN conjunct1, rule_format, OF tr]
  have "\<exists>fh items.
      (Yaml_safe_load fh, Inr (PDict items)) \<in> set (log (snd (config_run demo_document))) \<and>
      map_of items (PStr ''model'') = Some (PStr ''yolov8n-cls.pt'')"
    by blast
  with T1 [THEN conjunct2, THEN conjunct2] T2 [THEN conjunct2, THEN conjunct2] y1 y2 n
  show ?thesis by blast
qed

subsection \<open>Progress\<close>

text \<open>
  C6. A successful run emits exactly one progress-step signal, whatever the
  configuration says (its epochs among the rest), and the task declares one progress
  step.
\<close>

theorem one_progress_step:
  assumes "log s = []" and "run env s = (Inr (), s')"
  shows "length (filter (\<lambda>c. c = Emit_step_progress) (map fst (log s'))) = 1 \<and>
         get_progress_steps s' = 1"
  using run_success_calls [OF assms] by (simp add: get_progress_steps_def)

text \<open>
  The default run (100 epochs) and the config-file run (3 epochs) in the concrete
  environment.
\<close>

theorem one_progress_step_witness:
  "fst (mapped_run [morning]) = Inr () \<and>
   demo_cfg ''epochs'' = Some (PInt 100) \<and>
   length (filter (\<lambda>c. c = Emit_step_progress) (map fst (log (snd (mapped_run [morning]))))) = 1 \<and>
   get_progress_steps (snd (mapped_run [morning])) = 1"
proof -
  have m: "run demo_env (demo_task demo_cfg [morning] PNone) = (Inr (), snd (mapped_run [morning]))"
    using mapped_run_once by (simp add: mapped_run_def)
  have l: "log (demo_task demo_cfg [morning] PNone) = []"
    by (simp add: demo_task_def)
  have e: "demo_cfg ''epochs'' = Some (PInt 100)"
    by (simp add: demo_cfg_def TrainYoloV8ClassificationParam_init_def)
  from one_progress_step [OF l m] e show ?thesis
    by (simp add: mapped_run_once)
qed

subsection \<open>A document without a model\<close>



subsection \<open>The output folder\<close>





end
